theory Spec2Isabelle
  imports Main "HOL-Library.Word"
begin

section \<open>The extent probe of experiments/vcpkg/main.cpp\<close>

text \<open>
  The program is one function, \<^verbatim>\<open>main\<close>: a straight line of calls into GDAL/OGR, stdio
  and spdlog with a single guard (the null check of the dataset handle).  The embedding
  keeps that shape.  The libraries are black boxes: what they answer is a parameter of a
  run (the record \<open>gdal\<close>), what they do to the process is explicit state (the record
  \<open>proc\<close>), and every call the program makes is appended to a trace of events.  Undefined
  behaviour of the C++ is an outcome of its own, never an exit code.
\<close>

subsection \<open>Data\<close>

text \<open>A \<^verbatim>\<open>double\<close> is carried as its 64-bit pattern: the program copies the four numbers
  from the envelope to the logger and computes nothing on them.\<close>

type_synonym double = "64 word"

text \<open>Addresses of the process, and the opaque handles the library hands out
  (\<^verbatim>\<open>GDALDataset*\<close>, \<^verbatim>\<open>OGRLayer*\<close>, \<^verbatim>\<open>OGRSpatialReference*\<close>).  A null handle is
  \<open>None\<close>; the null address is \<open>0\<close>.\<close>

type_synonym addr = nat
type_synonym dataset = nat
type_synonym layer = nat
type_synonym srs = nat

text \<open>\<^verbatim>\<open>OGREnvelope\<close> of ogr_core.h: four public doubles.\<close>

record OGREnvelope =
  MinX :: double
  MaxX :: double
  MinY :: double
  MaxY :: double

text \<open>The open flags of gdal.h that matter here.  The header is not part of the
  repository; the flag word is kept as the list of the flags set in it.  A dataset is
  opened for writing only when \<open>GDAL_OF_UPDATE\<close> is set.\<close>

datatype open_flag = GDAL_OF_UPDATE | GDAL_OF_RASTER | GDAL_OF_VECTOR

text \<open>Arguments of a \<^verbatim>\<open>spdlog::info\<close> call after the format string: a double, or a
  \<^verbatim>\<open>char*\<close> (null or a C string).  How the sink renders them is the logger's business.\<close>

datatype logarg = Double double | CStr "string option"

text \<open>Every call that leaves \<^verbatim>\<open>main\<close>.  The last constructor stands for any operation of
  the PDAL headers included at lines 4 to 8 (readers, stages, point views).\<close>

datatype event =
    GDALAllRegister_ev
  | GDALOpenEx_ev "string option" "open_flag list" "dataset option"
  | printf_ev string
  | GetLayer_ev dataset int "layer option"
  | GetExtent_ev layer addr
  | spdlog_info_ev string "logarg list"
  | GetSpatialRef_ev layer "srs option"
  | exportToWkt_ev srs "string option"
  | CPLFree_ev "string option"
  | GDALClose_ev dataset
  | pdal_ev string

text \<open>The places where \<^verbatim>\<open>main\<close> dereferences a pointer it has not checked.\<close>

datatype undefined_behaviour =
    NullLayer          \<comment> \<open>line 31: \<^verbatim>\<open>poLayer->GetExtent\<close> with \<^verbatim>\<open>poLayer == NULL\<close>\<close>
  | WildEnvelope       \<comment> \<open>lines 31, 32: \<^verbatim>\<open>poEnvelope\<close> addresses no envelope\<close>
  | NullSpatialRef     \<comment> \<open>line 34: \<^verbatim>\<open>GetSpatialRef()->exportToWkt\<close> on a null result\<close>

datatype outcome = Exit int | Undefined undefined_behaviour

subsection \<open>The library, as the program sees it\<close>

text \<open>
  The answers of GDAL/OGR for the files at hand.  \<open>lib_GDALOpenEx\<close> gets the drivers
  registered so far, the path (\<open>None\<close> for a null pointer) and the flags, and yields the
  handle or null.  \<open>lib_GetExtent l old\<close> is the content of \<^verbatim>\<open>*psExtent\<close> after
  \<^verbatim>\<open>GetExtent\<close> on layer \<open>l\<close> when it held \<open>old\<close> before; the \<^verbatim>\<open>OGRErr\<close> the call returns
  is not part of the model because line 31 discards it.  \<open>lib_exportToWkt s\<close> is the buffer
  the export stores into \<^verbatim>\<open>*ppszResult\<close> (\<open>None\<close> when it leaves the pointer null).
\<close>

record gdal =
  all_drivers :: "string list"
  lib_GDALOpenEx :: "string list \<Rightarrow> string option \<Rightarrow> open_flag list \<Rightarrow> dataset option"
  lib_GetLayer :: "dataset \<Rightarrow> int \<Rightarrow> layer option"
  lib_GetExtent :: "layer \<Rightarrow> OGREnvelope \<Rightarrow> OGREnvelope"
  lib_GetSpatialRef :: "layer \<Rightarrow> srs option"
  lib_exportToWkt :: "srs \<Rightarrow> string option"

text \<open>The driver registry of the process.\<close>

record registry =
  initialised :: bool
  drivers :: "string list"

text \<open>
  The process: the driver registry, the storage that holds an \<^verbatim>\<open>OGREnvelope\<close> (a map from
  the addresses where one can be read and written), the dataset handles that are open, the
  string buffers that are allocated, and the trace.
\<close>

record proc =
  registry :: registry
  envelopes :: "addr \<rightharpoonup> OGREnvelope"
  open_datasets :: "dataset list"
  buffers :: "string list"
  trace :: "event list"

definition start :: "(addr \<rightharpoonup> OGREnvelope) \<Rightarrow> proc" where
  "start mem =
     \<lparr>registry = \<lparr>initialised = False, drivers = []\<rparr>,
      envelopes = mem, open_datasets = [], buffers = [], trace = []\<rparr>"

definition emit :: "event \<Rightarrow> proc \<Rightarrow> proc" where
  "emit ev p = p\<lparr>trace := trace p @ [ev]\<rparr>"

subsection \<open>The calls\<close>

text \<open>Modelled from the spec: \<^verbatim>\<open>GDALAllRegister\<close> is the library's and its code is not in
  the repository.  The spec describes it as registration of all supported drivers that is
  process-wide, one-time and idempotent: state initialised once, guarded so that repeated
  calls are no-ops.\<close>

definition register_all :: "gdal \<Rightarrow> registry \<Rightarrow> registry" where
  "register_all lib r =
     (if initialised r then r
      else \<lparr>initialised = True, drivers = drivers r @ all_drivers lib\<rparr>)"

definition GDALAllRegister :: "gdal \<Rightarrow> proc \<Rightarrow> proc" where
  "GDALAllRegister lib p =
     emit GDALAllRegister_ev (p\<lparr>registry := register_all lib (registry p)\<rparr>)"

definition GDALOpenEx ::
  "gdal \<Rightarrow> string option \<Rightarrow> open_flag list \<Rightarrow> proc \<Rightarrow> dataset option \<times> proc" where
  "GDALOpenEx lib path flags p =
     (let r = lib_GDALOpenEx lib (drivers (registry p)) path flags in
      (r, emit (GDALOpenEx_ev path flags r)
            (case r of
               None \<Rightarrow> p
             | Some ds \<Rightarrow> p\<lparr>open_datasets := ds # open_datasets p\<rparr>)))"

definition printf :: "string \<Rightarrow> proc \<Rightarrow> proc" where
  "printf s p = emit (printf_ev s) p"

definition GetLayer :: "gdal \<Rightarrow> dataset \<Rightarrow> int \<Rightarrow> proc \<Rightarrow> layer option \<times> proc" where
  "GetLayer lib ds i p =
     (let r = lib_GetLayer lib ds i in (r, emit (GetLayer_ev ds i r) p))"

text \<open>Reading or writing an envelope through a pointer is defined when the pointer is not
  null and addresses envelope storage.\<close>

definition deref :: "proc \<Rightarrow> addr \<Rightarrow> OGREnvelope option" where
  "deref p a = (if a = 0 then None else envelopes p a)"

text \<open>\<^verbatim>\<open>OGRLayer::GetExtent(OGREnvelope *psExtent)\<close>: the library writes the extent
  through the pointer it is given.  \<open>None\<close>: the pointer cannot be written through.
  The store is recorded at the address of the pointer only.  The machine writes the 32
  bytes of the envelope there, so an envelope read at an address less than 32 bytes away
  changes with it: the map gives the least that the store changes, and no statement of
  this theory says that storage at another address is left as it was.\<close>

definition GetExtent :: "gdal \<Rightarrow> layer \<Rightarrow> addr \<Rightarrow> proc \<Rightarrow> proc option" where
  "GetExtent lib l psExtent p =
     (case deref p psExtent of
        None \<Rightarrow> None
      | Some old \<Rightarrow>
          Some (p\<lparr>envelopes := (envelopes p)(psExtent \<mapsto> lib_GetExtent lib l old)\<rparr>))"

definition spdlog_info :: "string \<Rightarrow> logarg list \<Rightarrow> proc \<Rightarrow> proc" where
  "spdlog_info fmt as p = emit (spdlog_info_ev fmt as) p"

definition GetSpatialRef :: "gdal \<Rightarrow> layer \<Rightarrow> proc \<Rightarrow> srs option \<times> proc" where
  "GetSpatialRef lib l p =
     (let r = lib_GetSpatialRef lib l in (r, emit (GetSpatialRef_ev l r) p))"

text \<open>\<^verbatim>\<open>exportToWkt(&pszSRS_WKT)\<close>: the library allocates the text and stores the buffer
  into the pointer variable, which line 33 has set to null.\<close>

definition exportToWkt :: "gdal \<Rightarrow> srs \<Rightarrow> proc \<Rightarrow> string option \<times> proc" where
  "exportToWkt lib s p =
     (let r = lib_exportToWkt lib s in
      (r, emit (exportToWkt_ev s r)
            (case r of
               None \<Rightarrow> p
             | Some w \<Rightarrow> p\<lparr>buffers := w # buffers p\<rparr>)))"

text \<open>\<^verbatim>\<open>CPLFree\<close> releases the buffer; on a null pointer it does nothing.\<close>

definition CPLFree :: "string option \<Rightarrow> proc \<Rightarrow> proc" where
  "CPLFree b p =
     emit (CPLFree_ev b)
       (case b of
          None \<Rightarrow> p
        | Some w \<Rightarrow> p\<lparr>buffers := remove1 w (buffers p)\<rparr>)"

definition GDALClose :: "dataset \<Rightarrow> proc \<Rightarrow> proc" where
  "GDALClose ds p = emit (GDALClose_ev ds) (p\<lparr>open_datasets := remove1 ds (open_datasets p)\<rparr>)"

subsection \<open>main\<close>

text \<open>
  A hosted process is started with \<^verbatim>\<open>argc >= 1\<close>: \<^verbatim>\<open>argv[0]\<close> names the program, the
  positional arguments follow, and \<^verbatim>\<open>argv[argc]\<close> is a null pointer.  \<open>args\<close> is the list
  of positional arguments, so \<^verbatim>\<open>argv[1]\<close> is the first of them, or null when there is none.
  Line 16 reads it without looking at \<^verbatim>\<open>argc\<close>.
\<close>

fun argv_1 :: "string list \<Rightarrow> string option" where
  "argv_1 [] = None"
| "argv_1 (a # as) = Some a"

text \<open>
  Lines 33 to 39, with the dataset and the layer in hand.
  \<^verbatim>\<open>
    char *pszSRS_WKT = NULL;
    poLayer->GetSpatialRef()->exportToWkt(&pszSRS_WKT);
    spdlog::info("OGR spatial reference: {}", pszSRS_WKT);
    CPLFree( pszSRS_WKT );
    GDALClose( poDS );
    return 0;
  \<close>
\<close>

definition main_lines_33_39 :: "gdal \<Rightarrow> dataset \<Rightarrow> layer \<Rightarrow> proc \<Rightarrow> proc \<times> outcome" where
  "main_lines_33_39 lib poDS poLayer p =
     (let (sr, p1) = GetSpatialRef lib poLayer p in
      case sr of
        None \<Rightarrow> (p1, Undefined NullSpatialRef)
      | Some s \<Rightarrow>
          (let (pszSRS_WKT, p2) = exportToWkt lib s p1;
               p3 = spdlog_info ''OGR spatial reference: {}'' [CStr pszSRS_WKT] p2;
               p4 = CPLFree pszSRS_WKT p3;
               p5 = GDALClose poDS p4
           in (p5, Exit 0)))"

text \<open>
  Lines 28 to 32, then the rest.  \<open>indet\<close> is the value of \<^verbatim>\<open>poEnvelope\<close>: line 30 declares
  the pointer without an initialiser and nothing assigns it, so its value is whatever the
  run finds there.  The model lets a run go on when that value happens to be the address
  of envelope storage, which is the most the code can hope for: C++ promises nothing for
  any use of an indeterminate pointer.
  \<^verbatim>\<open>
    OGRLayer  *poLayer;
    poLayer = poDS->GetLayer(0);
    OGREnvelope *poEnvelope;
    poLayer->GetExtent(poEnvelope);
    spdlog::info("OGR bbox: {} {} {} {}", poEnvelope->MinX, poEnvelope->MinY,
                 poEnvelope->MaxX, poEnvelope->MaxY);
  \<close>
\<close>

definition main_lines_28_39 :: "gdal \<Rightarrow> addr \<Rightarrow> dataset \<Rightarrow> proc \<Rightarrow> proc \<times> outcome" where
  "main_lines_28_39 lib indet poDS p =
     (let (poLayer, p1) = GetLayer lib poDS 0 p;
          poEnvelope = indet
      in case poLayer of
           None \<Rightarrow> (p1, Undefined NullLayer)
         | Some l \<Rightarrow>
            (let p2 = emit (GetExtent_ev l poEnvelope) p1 in
             case GetExtent lib l poEnvelope p2 of
               None \<Rightarrow> (p2, Undefined WildEnvelope)
             | Some p3 \<Rightarrow>
                (case deref p3 poEnvelope of
                   None \<Rightarrow> (p3, Undefined WildEnvelope)
                 | Some e \<Rightarrow>
                     main_lines_33_39 lib poDS l
                       (spdlog_info ''OGR bbox: {} {} {} {}''
                          [Double (MinX e), Double (MinY e), Double (MaxX e), Double (MaxY e)]
                          p3))))"

text \<open>
  The whole of \<^verbatim>\<open>main\<close>.  \<open>mem\<close> is the envelope storage of the fresh process.
  \<^verbatim>\<open>
    auto path_gdal = argv[1];
    GDALAllRegister();
    poDS = (GDALDataset*) GDALOpenEx( path_gdal, GDAL_OF_VECTOR, NULL, NULL, NULL );
    if( poDS == NULL ) { printf( "Open failed.\n" ); exit( 1 ); }
  \<close>
\<close>

definition main :: "gdal \<Rightarrow> (addr \<rightharpoonup> OGREnvelope) \<Rightarrow> addr \<Rightarrow> string list \<Rightarrow> proc \<times> outcome" where
  "main lib mem indet args =
     (let path_gdal = argv_1 args;
          p1 = GDALAllRegister lib (start mem);
          (poDS, p2) = GDALOpenEx lib path_gdal [GDAL_OF_VECTOR] p1
      in case poDS of
           None \<Rightarrow> (printf ''Open failed.\<newline>'' p2, Exit 1)
         | Some ds \<Rightarrow> main_lines_28_39 lib indet ds p2)"

subsection \<open>Vocabulary of the statements\<close>

text \<open>What \<^verbatim>\<open>GDALOpenEx\<close> answers in a run on \<open>args\<close>: it is called once, after
  \<^verbatim>\<open>GDALAllRegister\<close> on the fresh registry, with \<^verbatim>\<open>argv[1]\<close> and \<^verbatim>\<open>GDAL_OF_VECTOR\<close>.\<close>

definition open_result :: "gdal \<Rightarrow> string list \<Rightarrow> dataset option" where
  "open_result lib args = lib_GDALOpenEx lib (all_drivers lib) (argv_1 args) [GDAL_OF_VECTOR]"

definition open_ev :: "gdal \<Rightarrow> string list \<Rightarrow> event" where
  "open_ev lib args = GDALOpenEx_ev (argv_1 args) [GDAL_OF_VECTOR] (open_result lib args)"

text \<open>The three lines the program can write.\<close>

definition open_failed_line :: event where
  "open_failed_line = printf_ev ''Open failed.\<newline>''"

definition bbox_line :: "OGREnvelope \<Rightarrow> event" where
  "bbox_line e =
     spdlog_info_ev ''OGR bbox: {} {} {} {}''
       [Double (MinX e), Double (MinY e), Double (MaxX e), Double (MaxY e)]"

definition srs_line :: "string option \<Rightarrow> event" where
  "srs_line w = spdlog_info_ev ''OGR spatial reference: {}'' [CStr w]"

text \<open>The kind of effect behind each event.  \<^verbatim>\<open>GetLayer\<close> and \<^verbatim>\<open>GetSpatialRef\<close> read the
  dataset and hand back a handle.  \<^verbatim>\<open>GetExtent\<close> reads the dataset and writes process
  memory through the pointer it is given: a store, not a query.\<close>

datatype effect =
    DriverRegistration | OutputWrite | DatasetOpen | DatasetClose
  | BufferAllocation | BufferRelease | DatasetQuery | PointerStore | PointCloudOp

fun effect_of :: "event \<Rightarrow> effect" where
  "effect_of GDALAllRegister_ev = DriverRegistration"
| "effect_of (GDALOpenEx_ev path flags r) = DatasetOpen"
| "effect_of (printf_ev s) = OutputWrite"
| "effect_of (GetLayer_ev ds i r) = DatasetQuery"
| "effect_of (GetExtent_ev l a) = PointerStore"
| "effect_of (spdlog_info_ev fmt as) = OutputWrite"
| "effect_of (GetSpatialRef_ev l r) = DatasetQuery"
| "effect_of (exportToWkt_ev s r) = BufferAllocation"
| "effect_of (CPLFree_ev b) = BufferRelease"
| "effect_of (GDALClose_ev ds) = DatasetClose"
| "effect_of (pdal_ev opn) = PointCloudOp"

fun opens_for_update :: "event \<Rightarrow> bool" where
  "opens_for_update (GDALOpenEx_ev path flags r) = (GDAL_OF_UPDATE \<in> set flags)"
| "opens_for_update ev = False"

definition count_effect :: "effect \<Rightarrow> event list \<Rightarrow> nat" where
  "count_effect k tr = length (filter (\<lambda>ev. effect_of ev = k) tr)"

text \<open>The side effects the specification lists for the program, word for word: driver
  registration, writes to the output sink, allocation and release of the string buffer,
  opening and closing the dataset handle.  This list is the specification's, set beside
  the calls of \<^verbatim>\<open>main\<close> for comparison; nothing in the model of the code uses it.\<close>

definition listed_side_effects :: "effect list" where
  "listed_side_effects =
     [DriverRegistration, OutputWrite, BufferAllocation, BufferRelease,
      DatasetOpen, DatasetClose]"

subsection \<open>A concrete library\<close>

text \<open>
  Three files.  \<open>a.shp\<close> is the example of the spec: one layer whose features span X in
  [0,10] and Y in [0,5], in WGS 84.  \<open>empty.gpkg\<close> opens and has no layer.  \<open>nosrs.shp\<close>
  has one layer with the same extent and no spatial reference.  Nothing else opens, a
  null path included.  The doubles are the IEEE 754 patterns of 0, 10 and 5.
\<close>

definition box_0_0_10_5 :: OGREnvelope where
  "box_0_0_10_5 =
     \<lparr>MinX = 0, MaxX = 0x4024000000000000, MinY = 0, MaxY = 0x4014000000000000\<rparr>"

definition stale_box :: OGREnvelope where
  "stale_box = \<lparr>MinX = 1, MaxX = 2, MinY = 3, MaxY = 4\<rparr>"

definition demo_lib :: gdal where
  "demo_lib =
     \<lparr>all_drivers = [''ESRI Shapefile'', ''GPKG''],
      lib_GDALOpenEx = (\<lambda>drv path flags.
         if ''ESRI Shapefile'' \<in> set drv \<and> GDAL_OF_VECTOR \<in> set flags \<and> path = Some ''a.shp''
           then Some 1
         else if ''GPKG'' \<in> set drv \<and> GDAL_OF_VECTOR \<in> set flags \<and> path = Some ''empty.gpkg''
           then Some 2
         else if ''ESRI Shapefile'' \<in> set drv \<and> GDAL_OF_VECTOR \<in> set flags \<and> path = Some ''nosrs.shp''
           then Some 3
         else None),
      lib_GetLayer = (\<lambda>ds i.
         if ds = 1 \<and> i = 0 then Some 7 else if ds = 3 \<and> i = 0 then Some 8 else None),
      lib_GetExtent = (\<lambda>l old. if l = 7 \<or> l = 8 then box_0_0_10_5 else old),
      lib_GetSpatialRef = (\<lambda>l. if l = 7 then Some 4 else None),
      lib_exportToWkt = (\<lambda>s. if s = 4 then Some ''GEOGCS[WGS 84]'' else None)\<rparr>"

section \<open>The five ways a run can go\<close>

lemmas call_defs =
  start_def emit_def register_all_def GDALAllRegister_def GDALOpenEx_def printf_def
  GetLayer_def deref_def GetExtent_def spdlog_info_def GetSpatialRef_def exportToWkt_def
  CPLFree_def GDALClose_def

lemmas main_defs = main_def main_lines_28_39_def main_lines_33_39_def

lemmas line_defs = open_result_def open_ev_def open_failed_line_def bbox_line_def srs_line_def

lemma main_open_failed:
  "open_result lib args = None \<Longrightarrow>
   main lib mem indet args =
     (\<lparr>registry = \<lparr>initialised = True, drivers = all_drivers lib\<rparr>, envelopes = mem,
       open_datasets = [], buffers = [],
       trace = [GDALAllRegister_ev, open_ev lib args, open_failed_line]\<rparr>, Exit 1)"
  by (simp add: main_defs call_defs line_defs Let_def)

lemma main_no_layer:
  "open_result lib args = Some ds \<Longrightarrow> lib_GetLayer lib ds 0 = None \<Longrightarrow>
   main lib mem indet args =
     (\<lparr>registry = \<lparr>initialised = True, drivers = all_drivers lib\<rparr>, envelopes = mem,
       open_datasets = [ds], buffers = [],
       trace = [GDALAllRegister_ev, open_ev lib args, GetLayer_ev ds 0 None]\<rparr>,
      Undefined NullLayer)"
  by (simp add: main_defs call_defs line_defs Let_def)

lemma main_wild:
  "open_result lib args = Some ds \<Longrightarrow> lib_GetLayer lib ds 0 = Some l \<Longrightarrow>
   indet = 0 \<or> mem indet = None \<Longrightarrow>
   main lib mem indet args =
     (\<lparr>registry = \<lparr>initialised = True, drivers = all_drivers lib\<rparr>, envelopes = mem,
       open_datasets = [ds], buffers = [],
       trace = [GDALAllRegister_ev, open_ev lib args, GetLayer_ev ds 0 (Some l),
                GetExtent_ev l indet]\<rparr>,
      Undefined WildEnvelope)"
  by (auto simp add: main_defs call_defs line_defs Let_def)

lemma main_no_srs:
  "open_result lib args = Some ds \<Longrightarrow> lib_GetLayer lib ds 0 = Some l \<Longrightarrow>
   indet \<noteq> 0 \<Longrightarrow> mem indet = Some old \<Longrightarrow> lib_GetSpatialRef lib l = None \<Longrightarrow>
   main lib mem indet args =
     (\<lparr>registry = \<lparr>initialised = True, drivers = all_drivers lib\<rparr>,
       envelopes = mem(indet \<mapsto> lib_GetExtent lib l old),
       open_datasets = [ds], buffers = [],
       trace = [GDALAllRegister_ev, open_ev lib args, GetLayer_ev ds 0 (Some l),
                GetExtent_ev l indet, bbox_line (lib_GetExtent lib l old),
                GetSpatialRef_ev l None]\<rparr>,
      Undefined NullSpatialRef)"
  by (simp add: main_defs call_defs line_defs Let_def)

lemma main_success:
  "open_result lib args = Some ds \<Longrightarrow> lib_GetLayer lib ds 0 = Some l \<Longrightarrow>
   indet \<noteq> 0 \<Longrightarrow> mem indet = Some old \<Longrightarrow> lib_GetSpatialRef lib l = Some s \<Longrightarrow>
   main lib mem indet args =
     (\<lparr>registry = \<lparr>initialised = True, drivers = all_drivers lib\<rparr>,
       envelopes = mem(indet \<mapsto> lib_GetExtent lib l old),
       open_datasets = [], buffers = [],
       trace = [GDALAllRegister_ev, open_ev lib args, GetLayer_ev ds 0 (Some l),
                GetExtent_ev l indet, bbox_line (lib_GetExtent lib l old),
                GetSpatialRef_ev l (Some s), exportToWkt_ev s (lib_exportToWkt lib s),
                srs_line (lib_exportToWkt lib s), CPLFree_ev (lib_exportToWkt lib s),
                GDALClose_ev ds]\<rparr>,
      Exit 0)"
  by (cases "lib_exportToWkt lib s") (simp_all add: main_defs call_defs line_defs Let_def)

lemma main_cases [case_names open_failed no_layer wild no_srs success]:
  obtains
    "open_result lib args = None"
  | ds where "open_result lib args = Some ds" "lib_GetLayer lib ds 0 = None"
  | ds l where "open_result lib args = Some ds" "lib_GetLayer lib ds 0 = Some l"
      "indet = 0 \<or> mem indet = None"
  | ds l old where "open_result lib args = Some ds" "lib_GetLayer lib ds 0 = Some l"
      "indet \<noteq> 0" "mem indet = Some old" "lib_GetSpatialRef lib l = None"
  | ds l old s where "open_result lib args = Some ds" "lib_GetLayer lib ds 0 = Some l"
      "indet \<noteq> 0" "mem indet = Some old" "lib_GetSpatialRef lib l = Some s"
proof (cases "open_result lib args")
  case None
  then show ?thesis by (rule that(1))
next
  case ds: (Some ds)
  show ?thesis
  proof (cases "lib_GetLayer lib ds 0")
    case None
    with ds show ?thesis by (rule that(2))
  next
    case l: (Some l)
    show ?thesis
    proof (cases "indet = 0 \<or> mem indet = None")
      case True
      with ds l show ?thesis by (rule that(3))
    next
      case False
      then obtain old where nz: "indet \<noteq> 0" and old: "mem indet = Some old" by auto
      show ?thesis
      proof (cases "lib_GetSpatialRef lib l")
        case None
        with ds l nz old show ?thesis by (rule that(4))
      next
        case (Some s)
        with ds l nz old show ?thesis by (rule that(5))
      qed
    qed
  qed
qed

section \<open>The claims\<close>

subsection \<open>Open failure\<close>

text \<open>
  C2.  When the open call returns a null handle, the run prints the failure message and
  ends with exit code 1; its trace is the registration, the open attempt and the message,
  so no layer access, extent query, spatial-reference query or logging of results happens.
  Exit code 1 comes from this path and from no other.
\<close>

theorem open_failure_exit_1:
  "(snd (main lib mem indet args) = Exit 1) = (open_result lib args = None) \<and>
   (open_result lib args = None \<longrightarrow>
      trace (fst (main lib mem indet args)) =
        [GDALAllRegister_ev, GDALOpenEx_ev (argv_1 args) [GDAL_OF_VECTOR] None,
         printf_ev ''Open failed.\<newline>''])"
proof (cases rule: main_cases [where lib = lib and args = args and indet = indet and mem = mem])
  case open_failed
  then show ?thesis by (simp add: main_open_failed open_ev_def open_failed_line_def)
next
  case (no_layer ds)
  then show ?thesis by (simp add: main_no_layer)
next
  case (wild ds l)
  then show ?thesis by (simp add: main_wild)
next
  case (no_srs ds l old)
  then show ?thesis by (simp add: main_no_srs)
next
  case (success ds l old s)
  then show ?thesis by (simp add: main_success)
qed

theorem open_failure_exit_1_witness:
  "open_result demo_lib [''missing.shp''] = None \<and>
   snd (main demo_lib Map.empty 0 [''missing.shp'']) = Exit 1 \<and>
   trace (fst (main demo_lib Map.empty 0 [''missing.shp''])) =
     [GDALAllRegister_ev, GDALOpenEx_ev (Some ''missing.shp'') [GDAL_OF_VECTOR] None,
      printf_ev ''Open failed.\<newline>'']"
proof -
  have h: "open_result demo_lib [''missing.shp''] = None"
    by (simp add: open_result_def demo_lib_def)
  show ?thesis
    using h open_failure_exit_1 [of demo_lib Map.empty 0 "[''missing.shp'']"] by simp
qed

text \<open>
  C10.  With no positional argument \<^verbatim>\<open>argv[1]\<close> is the terminating null pointer; the run
  makes no check of its own and hands the null path to the open call.  When the library
  answers a null path with a null handle, the run is the open-failure run: the same
  message, exit code 1, and nothing that tells a missing argument from a file that does
  not open.
\<close>

theorem missing_argument_open_failure:
  "take 2 (trace (fst (main lib mem indet []))) =
     [GDALAllRegister_ev,
      GDALOpenEx_ev None [GDAL_OF_VECTOR]
        (lib_GDALOpenEx lib (all_drivers lib) None [GDAL_OF_VECTOR])] \<and>
   (lib_GDALOpenEx lib (all_drivers lib) None [GDAL_OF_VECTOR] = None \<longrightarrow>
      snd (main lib mem indet []) = Exit 1 \<and>
      trace (fst (main lib mem indet [])) =
        [GDALAllRegister_ev, GDALOpenEx_ev None [GDAL_OF_VECTOR] None,
         printf_ev ''Open failed.\<newline>''] \<and>
      (open_result lib args = None \<longrightarrow>
         snd (main lib mem indet []) = snd (main lib mem indet args) \<and>
         last (trace (fst (main lib mem indet []))) =
           last (trace (fst (main lib mem indet args)))))"
proof (cases rule: main_cases [where lib = lib and args = "[]" and indet = indet and mem = mem])
  case open_failed
  then show ?thesis
    by (simp add: main_open_failed open_ev_def open_failed_line_def open_result_def)
next
  case (no_layer ds)
  then show ?thesis by (simp add: main_no_layer open_ev_def open_result_def)
next
  case (wild ds l)
  then show ?thesis by (simp add: main_wild open_ev_def open_result_def)
next
  case (no_srs ds l old)
  then show ?thesis by (simp add: main_no_srs open_ev_def open_result_def)
next
  case (success ds l old s)
  then show ?thesis by (simp add: main_success open_ev_def open_result_def)
qed

theorem missing_argument_open_failure_witness:
  "lib_GDALOpenEx demo_lib (all_drivers demo_lib) None [GDAL_OF_VECTOR] = None \<and>
   open_result demo_lib [''missing.shp''] = None \<and>
   snd (main demo_lib Map.empty 0 []) = Exit 1 \<and>
   trace (fst (main demo_lib Map.empty 0 [])) =
     [GDALAllRegister_ev, GDALOpenEx_ev None [GDAL_OF_VECTOR] None,
      printf_ev ''Open failed.\<newline>''] \<and>
   snd (main demo_lib Map.empty 0 []) = snd (main demo_lib Map.empty 0 [''missing.shp''])"
proof -
  have h: "lib_GDALOpenEx demo_lib (all_drivers demo_lib) None [GDAL_OF_VECTOR] = None"
    by (simp add: demo_lib_def)
  have k: "open_result demo_lib [''missing.shp''] = None"
    by (simp add: open_result_def demo_lib_def)
  show ?thesis
    using h k missing_argument_open_failure [of demo_lib Map.empty 0 "[''missing.shp'']"]
    by auto
qed

subsection \<open>Unguarded pointers\<close>

text \<open>
  C4.  When the dataset opens and has no layer, \<^verbatim>\<open>GetLayer(0)\<close> yields a null handle and
  line 31 calls \<^verbatim>\<open>GetExtent\<close> through it: nothing stands between the retrieval and the
  use.  The run ends in undefined behaviour, with no message written and no exit code.
\<close>

theorem zero_layers_null_dereference:
  "open_result lib args = Some ds \<Longrightarrow> lib_GetLayer lib ds 0 = None \<Longrightarrow>
   snd (main lib mem indet args) = Undefined NullLayer \<and>
   trace (fst (main lib mem indet args)) =
     [GDALAllRegister_ev, GDALOpenEx_ev (argv_1 args) [GDAL_OF_VECTOR] (Some ds),
      GetLayer_ev ds 0 None] \<and>
   open_datasets (fst (main lib mem indet args)) = [ds]"
  by (simp add: main_no_layer open_ev_def)

theorem zero_layers_null_dereference_witness:
  "open_result demo_lib [''empty.gpkg''] = Some 2 \<and> lib_GetLayer demo_lib 2 0 = None \<and>
   snd (main demo_lib [42 \<mapsto> stale_box] 42 [''empty.gpkg'']) = Undefined NullLayer \<and>
   trace (fst (main demo_lib [42 \<mapsto> stale_box] 42 [''empty.gpkg''])) =
     [GDALAllRegister_ev, GDALOpenEx_ev (Some ''empty.gpkg'') [GDAL_OF_VECTOR] (Some 2),
      GetLayer_ev 2 0 None]"
proof -
  have h: "open_result demo_lib [''empty.gpkg''] = Some 2"
    by (simp add: open_result_def demo_lib_def)
  have k: "lib_GetLayer demo_lib 2 0 = None"
    by (simp add: demo_lib_def)
  show ?thesis
    using h k zero_layers_null_dereference [OF h k, of "[42 \<mapsto> stale_box]" 42] by simp
qed

text \<open>
  C5.  For a layer without a spatial reference \<^verbatim>\<open>GetSpatialRef()\<close> yields null, and line
  34 calls \<^verbatim>\<open>exportToWkt\<close> through the result with no check in between.  Lines 33 to 39
  started on such a layer end in undefined behaviour right after the query; so does every
  whole run that gets as far as line 34, and a run on such a layer never ends with an
  exit code or a message about the missing reference.
\<close>

theorem missing_srs_null_dereference:
  "lib_GetSpatialRef lib l = None \<Longrightarrow>
   main_lines_33_39 lib ds l p = (emit (GetSpatialRef_ev l None) p, Undefined NullSpatialRef) \<and>
   (open_result lib args = Some ds \<and> lib_GetLayer lib ds 0 = Some l \<longrightarrow>
      (\<exists>u. snd (main lib mem indet args) = Undefined u) \<and>
      (\<forall>s. printf_ev s \<notin> set (trace (fst (main lib mem indet args)))) \<and>
      (indet \<noteq> 0 \<and> mem indet = Some old \<longrightarrow>
         snd (main lib mem indet args) = Undefined NullSpatialRef \<and>
         trace (fst (main lib mem indet args)) =
           [GDALAllRegister_ev, GDALOpenEx_ev (argv_1 args) [GDAL_OF_VECTOR] (Some ds),
            GetLayer_ev ds 0 (Some l), GetExtent_ev l indet,
            bbox_line (lib_GetExtent lib l old), GetSpatialRef_ev l None]))"
proof -
  assume srs: "lib_GetSpatialRef lib l = None"
  have block: "main_lines_33_39 lib ds l p =
      (emit (GetSpatialRef_ev l None) p, Undefined NullSpatialRef)"
    using srs by (simp add: main_lines_33_39_def GetSpatialRef_def)
  have whole: "(\<exists>u. snd (main lib mem indet args) = Undefined u) \<and>
      (\<forall>s. printf_ev s \<notin> set (trace (fst (main lib mem indet args)))) \<and>
      (indet \<noteq> 0 \<and> mem indet = Some old \<longrightarrow>
         snd (main lib mem indet args) = Undefined NullSpatialRef \<and>
         trace (fst (main lib mem indet args)) =
           [GDALAllRegister_ev, GDALOpenEx_ev (argv_1 args) [GDAL_OF_VECTOR] (Some ds),
            GetLayer_ev ds 0 (Some l), GetExtent_ev l indet,
            bbox_line (lib_GetExtent lib l old), GetSpatialRef_ev l None])"
    if ds: "open_result lib args = Some ds" and l: "lib_GetLayer lib ds 0 = Some l"
  proof (cases "indet = 0 \<or> mem indet = None")
    case True
    with ds l show ?thesis by (auto simp add: main_wild open_ev_def)
  next
    case False
    then obtain old' where nz: "indet \<noteq> 0" and old': "mem indet = Some old'" by auto
    from ds l nz old' srs show ?thesis
      by (simp add: main_no_srs open_ev_def bbox_line_def)
  qed
  from block whole show ?thesis by blast
qed

theorem missing_srs_null_dereference_witness:
  "lib_GetSpatialRef demo_lib 8 = None \<and>
   open_result demo_lib [''nosrs.shp''] = Some 3 \<and> lib_GetLayer demo_lib 3 0 = Some 8 \<and>
   (42::nat) \<noteq> 0 \<and> [42 \<mapsto> stale_box] (42::nat) = Some stale_box \<and>
   main_lines_33_39 demo_lib 3 8 (start Map.empty) =
     (emit (GetSpatialRef_ev 8 None) (start Map.empty), Undefined NullSpatialRef) \<and>
   snd (main demo_lib [42 \<mapsto> stale_box] 42 [''nosrs.shp'']) = Undefined NullSpatialRef \<and>
   trace (fst (main demo_lib [42 \<mapsto> stale_box] 42 [''nosrs.shp''])) =
     [GDALAllRegister_ev, GDALOpenEx_ev (Some ''nosrs.shp'') [GDAL_OF_VECTOR] (Some 3),
      GetLayer_ev 3 0 (Some 8), GetExtent_ev 8 42, bbox_line box_0_0_10_5,
      GetSpatialRef_ev 8 None]"
proof -
  have a: "lib_GetSpatialRef demo_lib 8 = None" by (simp add: demo_lib_def)
  have b: "open_result demo_lib [''nosrs.shp''] = Some 3"
    by (simp add: open_result_def demo_lib_def)
  have c: "lib_GetLayer demo_lib 3 0 = Some 8" by (simp add: demo_lib_def)
  have d: "lib_GetExtent demo_lib 8 stale_box = box_0_0_10_5" by (simp add: demo_lib_def)
  show ?thesis
    using a b c d
      missing_srs_null_dereference [OF a, of 3 "start Map.empty" "[''nosrs.shp'']"
        "[42 \<mapsto> stale_box]" 42 stale_box]
    by simp
qed

subsection \<open>Order of release\<close>

text \<open>
  C7.  A run that ends with exit code 0 has made its calls in this order: registration,
  open, layer, extent, the extent line, spatial reference, export, the spatial-reference
  line, then \<^verbatim>\<open>CPLFree\<close> of the exported buffer, then \<^verbatim>\<open>GDALClose\<close> of the dataset; both
  releases come after both log lines, the buffer before the handle, and at the end no
  buffer and no handle is left.  A run whose open fails has acquired nothing: the open
  call returned null, no buffer was allocated, and it ends holding no handle and no buffer.
\<close>

theorem release_after_logging:
  "(snd (main lib mem indet args) = Exit 0 \<longrightarrow>
      (\<exists>ds l e s w.
          trace (fst (main lib mem indet args)) =
            [GDALAllRegister_ev, GDALOpenEx_ev (argv_1 args) [GDAL_OF_VECTOR] (Some ds),
             GetLayer_ev ds 0 (Some l), GetExtent_ev l indet, bbox_line e,
             GetSpatialRef_ev l (Some s), exportToWkt_ev s w, srs_line w,
             CPLFree_ev w, GDALClose_ev ds]) \<and>
      buffers (fst (main lib mem indet args)) = [] \<and>
      open_datasets (fst (main lib mem indet args)) = []) \<and>
   (open_result lib args = None \<longrightarrow>
      trace (fst (main lib mem indet args)) =
        [GDALAllRegister_ev, GDALOpenEx_ev (argv_1 args) [GDAL_OF_VECTOR] None,
         printf_ev ''Open failed.\<newline>''] \<and>
      buffers (fst (main lib mem indet args)) = [] \<and>
      open_datasets (fst (main lib mem indet args)) = [])"
proof (cases rule: main_cases [where lib = lib and args = args and indet = indet and mem = mem])
  case open_failed
  then show ?thesis by (simp add: main_open_failed open_ev_def open_failed_line_def)
next
  case (no_layer ds)
  then show ?thesis by (simp add: main_no_layer)
next
  case (wild ds l)
  then show ?thesis by (simp add: main_wild)
next
  case (no_srs ds l old)
  then show ?thesis by (simp add: main_no_srs)
next
  case (success ds l old s)
  then show ?thesis by (auto simp add: main_success open_ev_def)
qed

theorem release_after_logging_witness:
  "snd (main demo_lib [42 \<mapsto> stale_box] 42 [''a.shp'']) = Exit 0 \<and>
   (\<exists>ds l e s w.
       trace (fst (main demo_lib [42 \<mapsto> stale_box] 42 [''a.shp''])) =
         [GDALAllRegister_ev, GDALOpenEx_ev (Some ''a.shp'') [GDAL_OF_VECTOR] (Some ds),
          GetLayer_ev ds 0 (Some l), GetExtent_ev l 42, bbox_line e,
          GetSpatialRef_ev l (Some s), exportToWkt_ev s w, srs_line w,
          CPLFree_ev w, GDALClose_ev ds]) \<and>
   buffers (fst (main demo_lib [42 \<mapsto> stale_box] 42 [''a.shp''])) = [] \<and>
   open_datasets (fst (main demo_lib [42 \<mapsto> stale_box] 42 [''a.shp''])) = [] \<and>
   open_result demo_lib [''missing.shp''] = None \<and>
   buffers (fst (main demo_lib Map.empty 0 [''missing.shp''])) = [] \<and>
   open_datasets (fst (main demo_lib Map.empty 0 [''missing.shp''])) = []"
proof -
  have a: "open_result demo_lib [''a.shp''] = Some 1"
    by (simp add: open_result_def demo_lib_def)
  have b: "lib_GetLayer demo_lib 1 0 = Some 7" by (simp add: demo_lib_def)
  have c: "lib_GetSpatialRef demo_lib 7 = Some 4" by (simp add: demo_lib_def)
  have d: "[42 \<mapsto> stale_box] (42::nat) = Some stale_box" by simp
  have ok: "snd (main demo_lib [42 \<mapsto> stale_box] 42 [''a.shp'']) = Exit 0"
    using a b c d by (simp add: main_success [where ds = 1 and l = 7 and old = stale_box and s = 4])
  have k: "open_result demo_lib [''missing.shp''] = None"
    by (simp add: open_result_def demo_lib_def)
  show ?thesis
    using ok k
      release_after_logging [of demo_lib "[42 \<mapsto> stale_box]" 42 "[''a.shp'']"]
      release_after_logging [of demo_lib Map.empty 0 "[''missing.shp'']"]
    by simp
qed

subsection \<open>Driver registration\<close>

text \<open>
  C8.  Every run registers the drivers exactly once, as its first call, and the open
  attempt is the call right after it; nothing later registers or opens again.
  Registration is idempotent on the driver registry: registering twice leaves the
  registry that registering once leaves.
\<close>

theorem registration_once_before_open:
  "(\<exists>rest. trace (fst (main lib mem indet args)) =
             GDALAllRegister_ev # open_ev lib args # rest \<and>
           (\<forall>ev \<in> set rest. effect_of ev \<noteq> DriverRegistration \<and> effect_of ev \<noteq> DatasetOpen)) \<and>
   count_effect DriverRegistration (trace (fst (main lib mem indet args))) = 1 \<and>
   register_all lib (register_all lib r) = register_all lib r \<and>
   registry (GDALAllRegister lib (GDALAllRegister lib p)) = registry (GDALAllRegister lib p)"
proof -
  have idem: "register_all lib (register_all lib r) = register_all lib r" for r
    by (simp add: register_all_def)
  have calls: "registry (GDALAllRegister lib (GDALAllRegister lib p)) =
      registry (GDALAllRegister lib p)"
    by (simp add: GDALAllRegister_def emit_def idem)
  have run: "(\<exists>rest. trace (fst (main lib mem indet args)) =
             GDALAllRegister_ev # open_ev lib args # rest \<and>
           (\<forall>ev \<in> set rest. effect_of ev \<noteq> DriverRegistration \<and> effect_of ev \<noteq> DatasetOpen)) \<and>
     count_effect DriverRegistration (trace (fst (main lib mem indet args))) = 1"
  proof (cases rule: main_cases [where lib = lib and args = args and indet = indet and mem = mem])
    case open_failed
    then show ?thesis
      by (simp add: main_open_failed count_effect_def open_ev_def line_defs)
  next
    case (no_layer ds)
    then show ?thesis by (simp add: main_no_layer count_effect_def open_ev_def)
  next
    case (wild ds l)
    then show ?thesis by (simp add: main_wild count_effect_def open_ev_def)
  next
    case (no_srs ds l old)
    then show ?thesis by (simp add: main_no_srs count_effect_def line_defs)
  next
    case (success ds l old s)
    then show ?thesis by (simp add: main_success count_effect_def line_defs)
  qed
  from run idem calls show ?thesis by blast
qed

theorem registration_once_before_open_witness:
  "trace (fst (main demo_lib [42 \<mapsto> stale_box] 42 [''nosrs.shp''])) =
     GDALAllRegister_ev # open_ev demo_lib [''nosrs.shp''] #
       [GetLayer_ev 3 0 (Some 8), GetExtent_ev 8 42, bbox_line box_0_0_10_5,
        GetSpatialRef_ev 8 None] \<and>
   count_effect DriverRegistration
     (trace (fst (main demo_lib [42 \<mapsto> stale_box] 42 [''nosrs.shp'']))) = 1 \<and>
   register_all demo_lib (register_all demo_lib \<lparr>initialised = False, drivers = [''GPKG'']\<rparr>) =
     \<lparr>initialised = True, drivers = [''GPKG'', ''ESRI Shapefile'', ''GPKG'']\<rparr>"
proof -
  have b: "open_result demo_lib [''nosrs.shp''] = Some 3"
    by (simp add: open_result_def demo_lib_def)
  have c: "lib_GetLayer demo_lib 3 0 = Some 8" by (simp add: demo_lib_def)
  have a: "lib_GetSpatialRef demo_lib 8 = None" by (simp add: demo_lib_def)
  have d: "[42 \<mapsto> stale_box] (42::nat) = Some stale_box" by simp
  have e: "lib_GetExtent demo_lib 8 stale_box = box_0_0_10_5" by (simp add: demo_lib_def)
  have once: "register_all demo_lib \<lparr>initialised = False, drivers = [''GPKG'']\<rparr> =
      \<lparr>initialised = True, drivers = [''GPKG'', ''ESRI Shapefile'', ''GPKG'']\<rparr>"
    by (simp add: register_all_def demo_lib_def)
  show ?thesis
    using main_no_srs [where lib = demo_lib and args = "[''nosrs.shp'']" and ds = 3 and l = 8
        and indet = 42 and mem = "[42 \<mapsto> stale_box]" and old = stale_box] a b c d e once
      registration_once_before_open [of demo_lib "[42 \<mapsto> stale_box]" 42 "[''nosrs.shp'']"
        "\<lparr>initialised = False, drivers = [''GPKG'']\<rparr>" "start Map.empty"]
    by simp
qed

subsection \<open>Frame\<close>

text \<open>
  What holds of the calls of every run, whatever the library answers: none is an
  operation of the point-cloud library, the dataset is never opened for update, and
  there is one registration, one open attempt, at most one close, at most one buffer
  allocation and release, and at most one store through the envelope pointer.
\<close>

lemma calls_of_a_run:
  "(\<forall>ev \<in> set (trace (fst (main lib mem indet args))).
       effect_of ev \<noteq> PointCloudOp \<and> \<not> opens_for_update ev) \<and>
   count_effect DriverRegistration (trace (fst (main lib mem indet args))) = 1 \<and>
   count_effect DatasetOpen (trace (fst (main lib mem indet args))) = 1 \<and>
   count_effect DatasetClose (trace (fst (main lib mem indet args))) \<le> 1 \<and>
   count_effect BufferAllocation (trace (fst (main lib mem indet args))) \<le> 1 \<and>
   count_effect BufferRelease (trace (fst (main lib mem indet args))) \<le> 1 \<and>
   count_effect PointerStore (trace (fst (main lib mem indet args))) \<le> 1"
proof (cases rule: main_cases [where lib = lib and args = args and indet = indet and mem = mem])
  case open_failed
  then show ?thesis by (simp add: main_open_failed count_effect_def line_defs)
next
  case (no_layer ds)
  then show ?thesis by (simp add: main_no_layer count_effect_def line_defs)
next
  case (wild ds l)
  then show ?thesis by (simp add: main_wild count_effect_def line_defs)
next
  case (no_srs ds l old)
  then show ?thesis by (simp add: main_no_srs count_effect_def line_defs)
next
  case (success ds l old s)
  then show ?thesis by (simp add: main_success count_effect_def line_defs)
qed

text \<open>
  Every run that gets past line 31 has written the extent into the storage the
  indeterminate pointer addresses, storage that \<^verbatim>\<open>main\<close> did not allocate: it was in the
  memory the process started with.
\<close>

lemma extent_store_at_indet:
  "open_result lib args = Some ds \<Longrightarrow> lib_GetLayer lib ds 0 = Some l \<Longrightarrow>
   indet \<noteq> 0 \<Longrightarrow> mem indet = Some old \<Longrightarrow>
   envelopes (start mem) indet = Some old \<and>
   envelopes (fst (main lib mem indet args)) indet = Some (lib_GetExtent lib l old) \<and>
   GetExtent_ev l indet \<in> set (trace (fst (main lib mem indet args)))"
  by (cases "lib_GetSpatialRef lib l") (simp_all add: main_no_srs main_success start_def)

section \<open>The uninitialised envelope pointer\<close>

text \<open>
  Line 30 declares \<^verbatim>\<open>poEnvelope\<close> and nothing assigns it before line 31 passes it to
  \<^verbatim>\<open>GetExtent\<close> and line 32 reads through it.  The statements below evaluate runs on
  the dataset of the spec's example.
\<close>

text \<open>
  C1.  The dataset \<open>a.shp\<close> opens, its first layer has the extent 0 0 10 5 and a spatial
  reference that exports to text.  A run in which the indeterminate pointer is null does
  not log the two lines and does not end with exit code 0: it ends in undefined behaviour
  at the extent query, with no line written.
\<close>

theorem valid_dataset_wild_pointer:
  "open_result demo_lib [''a.shp''] = Some 1 \<and> lib_GetLayer demo_lib 1 0 = Some 7 \<and>
   (\<forall>old. lib_GetExtent demo_lib 7 old = box_0_0_10_5) \<and>
   lib_GetSpatialRef demo_lib 7 = Some 4 \<and>
   lib_exportToWkt demo_lib 4 = Some ''GEOGCS[WGS 84]'' \<and>
   snd (main demo_lib Map.empty 0 [''a.shp'']) = Undefined WildEnvelope \<and>
   trace (fst (main demo_lib Map.empty 0 [''a.shp''])) =
     [GDALAllRegister_ev, GDALOpenEx_ev (Some ''a.shp'') [GDAL_OF_VECTOR] (Some 1),
      GetLayer_ev 1 0 (Some 7), GetExtent_ev 7 0]"
proof -
  have a: "open_result demo_lib [''a.shp''] = Some 1"
    by (simp add: open_result_def demo_lib_def)
  have b: "lib_GetLayer demo_lib 1 0 = Some 7" by (simp add: demo_lib_def)
  have rest: "(\<forall>old. lib_GetExtent demo_lib 7 old = box_0_0_10_5) \<and>
      lib_GetSpatialRef demo_lib 7 = Some 4 \<and>
      lib_exportToWkt demo_lib 4 = Some ''GEOGCS[WGS 84]''"
    by (simp add: demo_lib_def)
  have run: "main demo_lib Map.empty 0 [''a.shp''] =
      (\<lparr>registry = \<lparr>initialised = True, drivers = all_drivers demo_lib\<rparr>,
        envelopes = Map.empty, open_datasets = [1], buffers = [],
        trace = [GDALAllRegister_ev, open_ev demo_lib [''a.shp''], GetLayer_ev 1 0 (Some 7),
                 GetExtent_ev 7 0]\<rparr>,
       Undefined WildEnvelope)"
    using a b by (simp add: main_wild [where ds = 1 and l = 7])
  show ?thesis using a b rest run by (simp add: open_ev_def)
qed

text \<open>
  C3.  In a run that reaches the extent query, the pointer handed to \<^verbatim>\<open>GetExtent\<close> is the
  indeterminate value itself: the program allocates no envelope and binds the pointer to
  none.  Whenever that value is null or addresses no envelope storage, the run ends in
  undefined behaviour there and logs nothing.
\<close>

theorem envelope_pointer_unbound:
  "open_result lib args = Some ds \<Longrightarrow> lib_GetLayer lib ds 0 = Some l \<Longrightarrow>
   take 4 (trace (fst (main lib mem indet args))) =
     [GDALAllRegister_ev, GDALOpenEx_ev (argv_1 args) [GDAL_OF_VECTOR] (Some ds),
      GetLayer_ev ds 0 (Some l), GetExtent_ev l indet] \<and>
   (indet = 0 \<or> mem indet = None \<longrightarrow>
      snd (main lib mem indet args) = Undefined WildEnvelope \<and>
      (\<forall>fmt as. spdlog_info_ev fmt as \<notin> set (trace (fst (main lib mem indet args)))))"
proof -
  assume ds: "open_result lib args = Some ds" and l: "lib_GetLayer lib ds 0 = Some l"
  show ?thesis
  proof (cases "indet = 0 \<or> mem indet = None")
    case True
    with ds l show ?thesis by (simp add: main_wild open_ev_def)
  next
    case False
    then obtain old where nz: "indet \<noteq> 0" and old: "mem indet = Some old" by auto
    show ?thesis
    proof (cases "lib_GetSpatialRef lib l")
      case None
      with ds l nz old show ?thesis by (simp add: main_no_srs open_ev_def)
    next
      case (Some s)
      with ds l nz old show ?thesis by (simp add: main_success open_ev_def)
    qed
  qed
qed

theorem envelope_pointer_unbound_witness:
  "open_result demo_lib [''a.shp''] = Some 1 \<and> lib_GetLayer demo_lib 1 0 = Some 7 \<and>
   [42 \<mapsto> stale_box] (99::nat) = None \<and>
   take 4 (trace (fst (main demo_lib [42 \<mapsto> stale_box] 99 [''a.shp'']))) =
     [GDALAllRegister_ev, GDALOpenEx_ev (Some ''a.shp'') [GDAL_OF_VECTOR] (Some 1),
      GetLayer_ev 1 0 (Some 7), GetExtent_ev 7 99] \<and>
   snd (main demo_lib [42 \<mapsto> stale_box] 99 [''a.shp'']) = Undefined WildEnvelope"
proof -
  have a: "open_result demo_lib [''a.shp''] = Some 1"
    by (simp add: open_result_def demo_lib_def)
  have b: "lib_GetLayer demo_lib 1 0 = Some 7" by (simp add: demo_lib_def)
  have c: "[42 \<mapsto> stale_box] (99::nat) = None" by simp
  show ?thesis
    using a b c envelope_pointer_unbound [OF a b, of "[42 \<mapsto> stale_box]" 99] by simp
qed

text \<open>
  C6.  Two runs on the same file, with the same library answers and the same memory,
  that differ only in the indeterminate value of the pointer: one logs both lines and
  ends with exit code 0, the other ends in undefined behaviour at the extent query.
\<close>

theorem two_runs_same_dataset_differ:
  "snd (main demo_lib [42 \<mapsto> stale_box] 42 [''a.shp'']) = Exit 0 \<and>
   trace (fst (main demo_lib [42 \<mapsto> stale_box] 42 [''a.shp''])) =
     [GDALAllRegister_ev, GDALOpenEx_ev (Some ''a.shp'') [GDAL_OF_VECTOR] (Some 1),
      GetLayer_ev 1 0 (Some 7), GetExtent_ev 7 42, bbox_line box_0_0_10_5,
      GetSpatialRef_ev 7 (Some 4), exportToWkt_ev 4 (Some ''GEOGCS[WGS 84]''),
      srs_line (Some ''GEOGCS[WGS 84]''), CPLFree_ev (Some ''GEOGCS[WGS 84]''),
      GDALClose_ev 1] \<and>
   snd (main demo_lib [42 \<mapsto> stale_box] 7 [''a.shp'']) = Undefined WildEnvelope \<and>
   trace (fst (main demo_lib [42 \<mapsto> stale_box] 7 [''a.shp''])) =
     [GDALAllRegister_ev, GDALOpenEx_ev (Some ''a.shp'') [GDAL_OF_VECTOR] (Some 1),
      GetLayer_ev 1 0 (Some 7), GetExtent_ev 7 7]"
proof -
  have a: "open_result demo_lib [''a.shp''] = Some 1"
    by (simp add: open_result_def demo_lib_def)
  have b: "lib_GetLayer demo_lib 1 0 = Some 7" by (simp add: demo_lib_def)
  have c: "lib_GetSpatialRef demo_lib 7 = Some 4" by (simp add: demo_lib_def)
  have d: "lib_GetExtent demo_lib 7 stale_box = box_0_0_10_5" by (simp add: demo_lib_def)
  have e: "lib_exportToWkt demo_lib 4 = Some ''GEOGCS[WGS 84]''" by (simp add: demo_lib_def)
  have good: "main demo_lib [42 \<mapsto> stale_box] 42 [''a.shp''] =
      (\<lparr>registry = \<lparr>initialised = True, drivers = all_drivers demo_lib\<rparr>,
        envelopes = [42 \<mapsto> stale_box](42 \<mapsto> box_0_0_10_5),
        open_datasets = [], buffers = [],
        trace = [GDALAllRegister_ev, open_ev demo_lib [''a.shp''], GetLayer_ev 1 0 (Some 7),
                 GetExtent_ev 7 42, bbox_line box_0_0_10_5,
                 GetSpatialRef_ev 7 (Some 4), exportToWkt_ev 4 (Some ''GEOGCS[WGS 84]''),
                 srs_line (Some ''GEOGCS[WGS 84]''), CPLFree_ev (Some ''GEOGCS[WGS 84]''),
                 GDALClose_ev 1]\<rparr>,
       Exit 0)"
    using a b c d e
    by (simp add: main_success [where ds = 1 and l = 7 and old = stale_box and s = 4])
  have bad: "main demo_lib [42 \<mapsto> stale_box] 7 [''a.shp''] =
      (\<lparr>registry = \<lparr>initialised = True, drivers = all_drivers demo_lib\<rparr>,
        envelopes = [42 \<mapsto> stale_box], open_datasets = [1], buffers = [],
        trace = [GDALAllRegister_ev, open_ev demo_lib [''a.shp''], GetLayer_ev 1 0 (Some 7),
                 GetExtent_ev 7 7]\<rparr>,
       Undefined WildEnvelope)"
    using a b by (simp add: main_wild [where ds = 1 and l = 7])
  show ?thesis using a good bad by (simp add: open_ev_def)
qed

text \<open>
  C9.  The side effects of a run are not only the listed ones.  In the run on \<open>a.shp\<close>
  that ends with exit code 0, the call of line 31 is a store through the uninitialised
  pointer, which is none of driver registration, output, buffer allocation or release,
  dataset open or close; and the envelope at address 42, which the process held before
  \<^verbatim>\<open>main\<close> ran and \<^verbatim>\<open>main\<close> never allocated, is overwritten with the extent of the layer.
\<close>

theorem extent_store_not_a_listed_effect:
  "snd (main demo_lib [42 \<mapsto> stale_box] 42 [''a.shp'']) = Exit 0 \<and>
   GetExtent_ev 7 42 \<in> set (trace (fst (main demo_lib [42 \<mapsto> stale_box] 42 [''a.shp'']))) \<and>
   effect_of (GetExtent_ev 7 42) = PointerStore \<and>
   effect_of (GetExtent_ev 7 42) \<notin> set listed_side_effects \<and>
   envelopes (start [42 \<mapsto> stale_box]) 42 = Some stale_box \<and>
   envelopes (fst (main demo_lib [42 \<mapsto> stale_box] 42 [''a.shp''])) 42 = Some box_0_0_10_5 \<and>
   stale_box \<noteq> box_0_0_10_5"
proof -
  have a: "open_result demo_lib [''a.shp''] = Some 1"
    by (simp add: open_result_def demo_lib_def)
  have b: "lib_GetLayer demo_lib 1 0 = Some 7" by (simp add: demo_lib_def)
  have c: "lib_GetSpatialRef demo_lib 7 = Some 4" by (simp add: demo_lib_def)
  have d: "lib_GetExtent demo_lib 7 stale_box = box_0_0_10_5" by (simp add: demo_lib_def)
  have m: "[42 \<mapsto> stale_box] (42::nat) = Some stale_box" by simp
  have ok: "snd (main demo_lib [42 \<mapsto> stale_box] 42 [''a.shp'']) = Exit 0"
    using a b c m
    by (simp add: main_success [where ds = 1 and l = 7 and old = stale_box and s = 4])
  have store: "envelopes (start [42 \<mapsto> stale_box]) 42 = Some stale_box \<and>
      envelopes (fst (main demo_lib [42 \<mapsto> stale_box] 42 [''a.shp''])) 42 =
        Some (lib_GetExtent demo_lib 7 stale_box) \<and>
      GetExtent_ev 7 42 \<in> set (trace (fst (main demo_lib [42 \<mapsto> stale_box] 42 [''a.shp''])))"
    using a b m
      extent_store_at_indet [where lib = demo_lib and args = "[''a.shp'']" and ds = 1 and l = 7
        and indet = 42 and mem = "[42 \<mapsto> stale_box]" and old = stale_box]
    by simp
  have kind: "effect_of (GetExtent_ev 7 42) = PointerStore \<and>
      effect_of (GetExtent_ev 7 42) \<notin> set listed_side_effects"
    by (simp add: listed_side_effects_def)
  have differ: "stale_box \<noteq> box_0_0_10_5"
    by (simp add: stale_box_def box_0_0_10_5_def)
  show ?thesis using ok store kind differ d by simp
qed

end
